theory Spec2Isabelle
  imports Main
begin

section \<open>Thrown values\<close>

text \<open>
  The exceptions the authentication service and its utilities throw. The two NestJS
  exceptions carry their message. The three refresh-token exceptions are the classes
  imported from \<^verbatim>\<open>./exceptions/auth.exceptions\<close>, constructed without arguments.
  \<open>ForeignError\<close> stands for any value thrown by a collaborator outside the
  repository: the JWT library (signature invalid, malformed, expired), bcrypt, the
  database client.
\<close>

datatype exn =
    UnauthorizedException string
  | InternalServerErrorException string
  | RefreshTokenReusedException
  | RefreshTokenRevokedException
  | RefreshTokenExpiredException
  | ForeignError string

section \<open>Data\<close>

text \<open>\<^verbatim>\<open>TokenPayload\<close> and \<^verbatim>\<open>UserInfo\<close> of token.util; optional fields are options.\<close>

record TokenPayload =
  pl_sub :: string
  pl_email :: string
  pl_displayName :: "string option"
  pl_typ :: "string option"

record UserInfo =
  ui_id :: string
  ui_email :: string
  ui_displayName :: "string option"

text \<open>The user entity as the service reads it: id, email, displayName, passwordHash.\<close>

record User =
  usr_id :: string
  usr_email :: string
  usr_displayName :: "string option"
  usr_passwordHash :: string

record RequestMetadata =
  ip :: "string option"
  userAgent :: "string option"

text \<open>
  A stored refresh token. The service reads \<^verbatim>\<open>id\<close>, \<^verbatim>\<open>revokedAt\<close> (a date or null)
  and \<^verbatim>\<open>expiresAt.getTime()\<close> (milliseconds since the epoch); the other fields are
  those of the data model. Times are integers of milliseconds.
\<close>

record RefreshTokenRecord =
  rt_id :: string
  rt_userId :: string
  rt_tokenHash :: string
  rt_issuedAt :: int
  rt_expiresAt :: int
  rt_revokedAt :: "int option"
  rt_replacedBy :: "string option"
  rt_meta :: "RequestMetadata option"

text \<open>What \<^verbatim>\<open>issueTokens\<close> and \<^verbatim>\<open>refresh\<close> resolve to, and what \<^verbatim>\<open>logout\<close> resolves to.\<close>

record TokenPair =
  access_token :: string
  refresh_token :: string
  refresh_token_id :: string

record LogoutResult =
  ok :: bool

section \<open>Values of type any\<close>

text \<open>
  \<^verbatim>\<open>decodeToken\<close> returns \<^verbatim>\<open>any\<close> and \<^verbatim>\<open>extractTokenExpiration\<close> inspects it with
  optional chaining, truthiness and \<^verbatim>\<open>typeof\<close>. Numbers are integers here: a JWT
  expiration is a number of seconds and \<^verbatim>\<open>Date.now()\<close> a number of milliseconds.
\<close>

datatype js_any =
    JsUndefined
  | JsNull
  | JsBoolean bool
  | JsNumber int
  | JsString string
  | JsObject "(string \<times> js_any) list"

text \<open>\<^verbatim>\<open>v?.k\<close>: undefined on undefined and null, the property of an object, and
  undefined where the property is missing (a primitive has no own property \<^verbatim>\<open>exp\<close>).\<close>

fun optional_get :: "js_any \<Rightarrow> string \<Rightarrow> js_any" where
  "optional_get (JsObject kvs) k = (case map_of kvs k of Some v \<Rightarrow> v | None \<Rightarrow> JsUndefined)"
| "optional_get v k = JsUndefined"

fun truthy :: "js_any \<Rightarrow> bool" where
  "truthy JsUndefined = False"
| "truthy JsNull = False"
| "truthy (JsBoolean b) = b"
| "truthy (JsNumber n) = (n \<noteq> 0)"
| "truthy (JsString s) = (s \<noteq> [])"
| "truthy (JsObject kvs) = True"

fun typeof :: "js_any \<Rightarrow> string" where
  "typeof JsUndefined = ''undefined''"
| "typeof JsNull = ''object''"
| "typeof (JsBoolean b) = ''boolean''"
| "typeof (JsNumber n) = ''number''"
| "typeof (JsString s) = ''string''"
| "typeof (JsObject kvs) = ''object''"

text \<open>The number a value of type number holds (read only under \<^verbatim>\<open>typeof v === 'number'\<close>).\<close>

fun number_of :: "js_any \<Rightarrow> int" where
  "number_of (JsNumber n) = n"
| "number_of v = 0"

section \<open>Collaborators outside the repository\<close>

text \<open>
  The JWT service of \<^verbatim>\<open>@nestjs/jwt\<close>, the bcrypt library and the users service are
  injected. Each call either returns or throws; what it throws is an \<open>exn\<close>.
\<close>

record SignOptions =
  opt_secret :: string
  opt_expiresIn :: string

record JwtService =
  jwt_sign :: "TokenPayload \<Rightarrow> SignOptions option \<Rightarrow> exn + string"
  jwt_verifyAsync :: "string \<Rightarrow> string \<Rightarrow> exn + TokenPayload"
  jwt_decode :: "string \<Rightarrow> exn + js_any"

record Bcrypt =
  bcrypt_hash :: "string \<Rightarrow> nat \<Rightarrow> exn + string"
  bcrypt_compare :: "string \<Rightarrow> string \<Rightarrow> exn + bool"

record UsersService =
  findByEmail :: "string \<Rightarrow> exn + User option"

section \<open>token.util\<close>

definition signAccessToken :: "JwtService \<Rightarrow> UserInfo \<Rightarrow> exn + string" where
  "signAccessToken jwtService user =
     (case jwt_sign jwtService
             \<lparr>pl_sub = ui_id user, pl_email = ui_email user,
              pl_displayName = ui_displayName user, pl_typ = None\<rparr> None of
        Inr token \<Rightarrow> Inr token
      | Inl _ \<Rightarrow> Inl (UnauthorizedException ''Failed to sign access token''))"

text \<open>\<^verbatim>\<open>expiresIn\<close> has the default \<^verbatim>\<open>'7d'\<close>: \<open>None\<close> is the omitted argument.\<close>

definition signRefreshToken ::
    "JwtService \<Rightarrow> UserInfo \<Rightarrow> string \<Rightarrow> string option \<Rightarrow> exn + string" where
  "signRefreshToken jwtService user secret expiresIn =
     (case jwt_sign jwtService
             \<lparr>pl_sub = ui_id user, pl_email = ui_email user,
              pl_displayName = ui_displayName user, pl_typ = Some ''refresh''\<rparr>
             (Some \<lparr>opt_secret = secret,
                    opt_expiresIn = (case expiresIn of None \<Rightarrow> ''7d'' | Some d \<Rightarrow> d)\<rparr>) of
        Inr token \<Rightarrow> Inr token
      | Inl _ \<Rightarrow> Inl (UnauthorizedException ''Failed to sign refresh token''))"

definition verifyRefreshToken :: "JwtService \<Rightarrow> string \<Rightarrow> string \<Rightarrow> exn + TokenPayload" where
  "verifyRefreshToken jwtService token secret =
     (case jwt_verifyAsync jwtService token secret of
        Inr payload \<Rightarrow> Inr payload
      | Inl _ \<Rightarrow> Inl (UnauthorizedException ''Invalid or expired refresh token''))"

definition decodeToken :: "JwtService \<Rightarrow> string \<Rightarrow> exn + js_any" where
  "decodeToken jwtService token =
     (case jwt_decode jwtService token of
        Inr decoded \<Rightarrow> Inr decoded
      | Inl _ \<Rightarrow> Inl (UnauthorizedException ''Failed to decode token''))"

text \<open>\<open>now\<close> is what \<^verbatim>\<open>Date.now()\<close> returns, in milliseconds; \<^verbatim>\<open>Math.floor\<close> of the
  quotient is integer division, which rounds down.\<close>

definition extractTokenExpiration :: "int \<Rightarrow> js_any \<Rightarrow> int" where
  "extractTokenExpiration now decodedToken =
     (if truthy (optional_get decodedToken ''exp'')
         \<and> typeof (optional_get decodedToken ''exp'') = ''number''
      then number_of (optional_get decodedToken ''exp'')
      else now div 1000 + 60 * 60 * 24 * 7)"

section \<open>bcrypt.util\<close>

text \<open>\<^verbatim>\<open>rounds\<close> has the default 12: \<open>None\<close> is the omitted argument.\<close>

definition hashPassword :: "Bcrypt \<Rightarrow> string \<Rightarrow> nat option \<Rightarrow> exn + string" where
  "hashPassword bcrypt plainText rounds =
     (case bcrypt_hash bcrypt plainText (case rounds of None \<Rightarrow> 12 | Some n \<Rightarrow> n) of
        Inr h \<Rightarrow> Inr h
      | Inl _ \<Rightarrow> Inl (InternalServerErrorException ''Failed to hash password''))"

definition comparePassword :: "Bcrypt \<Rightarrow> string \<Rightarrow> string \<Rightarrow> exn + bool" where
  "comparePassword bcrypt plainText hash =
     (case bcrypt_compare bcrypt plainText hash of
        Inr b \<Rightarrow> Inr b
      | Inl _ \<Rightarrow> Inl (InternalServerErrorException ''Failed to compare passwords''))"

definition hashToken :: "Bcrypt \<Rightarrow> string \<Rightarrow> exn + string" where
  "hashToken bcrypt token =
     (case bcrypt_hash bcrypt token 12 of
        Inr h \<Rightarrow> Inr h
      | Inl _ \<Rightarrow> Inl (InternalServerErrorException ''Failed to hash token''))"

definition compareToken :: "Bcrypt \<Rightarrow> string \<Rightarrow> string \<Rightarrow> exn + bool" where
  "compareToken bcrypt token hash =
     (case bcrypt_compare bcrypt token hash of
        Inr b \<Rightarrow> Inr b
      | Inl _ \<Rightarrow> Inl (InternalServerErrorException ''Failed to compare tokens''))"

section \<open>The refresh-token repository, as the service sees it\<close>

text \<open>
  \<^verbatim>\<open>RefreshTokenRepository\<close> is injected into the service, which calls nine of its
  methods. They are parameters here, over any store type \<open>'s\<close>: a lookup reads the
  store, a mutator returns the new store, and each may throw. A mutator that throws
  leaves the store as it was (the store's operations are atomic at the record level).
\<close>

record 's RefreshTokenRepository =
  repo_verifyRefreshToken :: "string \<Rightarrow> exn + TokenPayload"
  findByUserId :: "'s \<Rightarrow> string \<Rightarrow> exn + RefreshTokenRecord list"
  findAll :: "'s \<Rightarrow> nat \<Rightarrow> exn + RefreshTokenRecord list"
  findMatchedToken :: "RefreshTokenRecord list \<Rightarrow> string \<Rightarrow> exn + RefreshTokenRecord option"
  createRefreshToken :: "UserInfo \<Rightarrow> exn + string"
  save :: "'s \<Rightarrow> string \<Rightarrow> string \<Rightarrow> RequestMetadata option \<Rightarrow> exn + RefreshTokenRecord \<times> 's"
  revoke :: "'s \<Rightarrow> string \<Rightarrow> exn + 's"
  revokeAllForUser :: "'s \<Rightarrow> string \<Rightarrow> exn + 's"
  markAsReplaced :: "'s \<Rightarrow> string \<Rightarrow> string \<Rightarrow> exn + 's"

text \<open>
  The service runs against the store and a log of the mutator calls that completed, in
  the order they completed: \<open>CallSave userId rawToken newId\<close>, \<open>CallRevoke id\<close>,
  \<open>CallRevokeAllForUser userId\<close>, \<open>CallMarkAsReplaced oldId newId\<close>.
\<close>

datatype call =
    CallSave string string string
  | CallRevoke string
  | CallRevokeAllForUser string
  | CallMarkAsReplaced string string

record 's world =
  store :: 's
  calls :: "call list"

text \<open>
  An async method is a function from the world to its outcome (\<open>Inl\<close> the thrown
  value, \<open>Inr\<close> the resolved one) and the world it leaves. \<open>await\<close> sequences two
  steps and stops at the first throw; \<open>tryCatch\<close> is \<^verbatim>\<open>try { ... } catch (error) { ... }\<close>.
\<close>

type_synonym ('s, 'a) action = "'s world \<Rightarrow> (exn + 'a) \<times> 's world"

definition succeed :: "'a \<Rightarrow> ('s, 'a) action" where
  "succeed v w = (Inr v, w)"

definition throw :: "exn \<Rightarrow> ('s, 'a) action" where
  "throw e w = (Inl e, w)"

definition await :: "('s, 'a) action \<Rightarrow> ('a \<Rightarrow> ('s, 'b) action) \<Rightarrow> ('s, 'b) action" where
  "await m k w = (case m w of (Inl e, w') \<Rightarrow> (Inl e, w') | (Inr v, w') \<Rightarrow> k v w')"

definition tryCatch :: "('s, 'a) action \<Rightarrow> (exn \<Rightarrow> ('s, 'a) action) \<Rightarrow> ('s, 'a) action" where
  "tryCatch m h w = (case m w of (Inl e, w') \<Rightarrow> h e w' | (Inr v, w') \<Rightarrow> (Inr v, w'))"

text \<open>A call that does not touch the store, a lookup, a mutator that returns a value
  and a mutator that returns nothing.\<close>

definition call_pure :: "exn + 'a \<Rightarrow> ('s, 'a) action" where
  "call_pure r w = (r, w)"

definition call_query :: "('s \<Rightarrow> exn + 'a) \<Rightarrow> ('s, 'a) action" where
  "call_query q w = (q (store w), w)"

definition call_update :: "('s \<Rightarrow> exn + 'a \<times> 's) \<Rightarrow> ('a \<Rightarrow> call) \<Rightarrow> ('s, 'a) action" where
  "call_update u c w =
     (case u (store w) of
        Inl e \<Rightarrow> (Inl e, w)
      | Inr (v, s') \<Rightarrow> (Inr v, w\<lparr>store := s', calls := calls w @ [c v]\<rparr>))"

definition call_command :: "('s \<Rightarrow> exn + 's) \<Rightarrow> call \<Rightarrow> ('s, unit) action" where
  "call_command u c w =
     (case u (store w) of
        Inl e \<Rightarrow> (Inl e, w)
      | Inr s' \<Rightarrow> (Inr (), w\<lparr>store := s', calls := calls w @ [c]\<rparr>))"

section \<open>AuthService\<close>

definition validateUser :: "UsersService \<Rightarrow> Bcrypt \<Rightarrow> string \<Rightarrow> string \<Rightarrow> exn + UserInfo option" where
  "validateUser users bcrypt email password =
     (case (case findByEmail users email of
              Inl e \<Rightarrow> Inl e
            | Inr None \<Rightarrow> Inr None
            | Inr (Some user) \<Rightarrow>
                (case comparePassword bcrypt password (usr_passwordHash user) of
                   Inl e \<Rightarrow> Inl e
                 | Inr isValid \<Rightarrow>
                     Inr (if isValid
                          then Some \<lparr>ui_id = usr_id user, ui_email = usr_email user,
                                     ui_displayName = usr_displayName user\<rparr>
                          else None))) of
        Inl _ \<Rightarrow> Inl (InternalServerErrorException ''Failed to validate user'')
      | Inr v \<Rightarrow> Inr v)"

definition issueTokens ::
    "JwtService \<Rightarrow> 's RefreshTokenRepository \<Rightarrow> UserInfo \<Rightarrow> RequestMetadata option
      \<Rightarrow> ('s, TokenPair) action" where
  "issueTokens jwt tokenRepo user meta =
     tryCatch
       (await (call_pure (signAccessToken jwt user)) (\<lambda>access_token.
        await (call_pure (createRefreshToken tokenRepo user)) (\<lambda>refresh_token.
        await (call_update (\<lambda>s. save tokenRepo s (ui_id user) refresh_token meta)
                 (\<lambda>saved. CallSave (ui_id user) refresh_token (rt_id saved))) (\<lambda>saved.
        succeed \<lparr>access_token = access_token, refresh_token = refresh_token,
                 refresh_token_id = rt_id saved\<rparr>))))
       (\<lambda>_. throw (InternalServerErrorException ''Failed to issue tokens''))"

text \<open>\<open>now\<close> is what \<^verbatim>\<open>Date.now()\<close> returns at the expiry check.\<close>

definition refresh ::
    "UsersService \<Rightarrow> JwtService \<Rightarrow> 's RefreshTokenRepository \<Rightarrow> int \<Rightarrow> string
      \<Rightarrow> RequestMetadata option \<Rightarrow> ('s, TokenPair) action" where
  "refresh users jwt tokenRepo now rawRefreshToken meta =
     tryCatch
       (await (call_pure (repo_verifyRefreshToken tokenRepo rawRefreshToken)) (\<lambda>payload.
        await (call_query (\<lambda>s. findByUserId tokenRepo s (pl_sub payload))) (\<lambda>tokens.
        await (call_pure (findMatchedToken tokenRepo tokens rawRefreshToken)) (\<lambda>found.
        case found of
          None \<Rightarrow>
            await (call_command (\<lambda>s. revokeAllForUser tokenRepo s (pl_sub payload))
                     (CallRevokeAllForUser (pl_sub payload))) (\<lambda>_.
            throw RefreshTokenReusedException)
        | Some matched \<Rightarrow>
            if rt_revokedAt matched \<noteq> None then throw RefreshTokenRevokedException
            else if rt_expiresAt matched \<le> now then
              await (call_command (\<lambda>s. revoke tokenRepo s (rt_id matched))
                       (CallRevoke (rt_id matched))) (\<lambda>_.
              throw RefreshTokenExpiredException)
            else
              await (call_pure (findByEmail users (pl_email payload))) (\<lambda>userData.
              let user = \<lparr>ui_id = pl_sub payload, ui_email = pl_email payload,
                          ui_displayName =
                            (case userData of None \<Rightarrow> None | Some u \<Rightarrow> usr_displayName u)\<rparr>
              in
              await (call_pure (signAccessToken jwt user)) (\<lambda>access_token.
              await (call_pure (createRefreshToken tokenRepo user)) (\<lambda>refresh_token.
              await (call_update (\<lambda>s. save tokenRepo s (ui_id user) refresh_token meta)
                       (\<lambda>saved. CallSave (ui_id user) refresh_token (rt_id saved))) (\<lambda>saved.
              await (call_command (\<lambda>s. markAsReplaced tokenRepo s (rt_id matched) (rt_id saved))
                       (CallMarkAsReplaced (rt_id matched) (rt_id saved))) (\<lambda>_.
              succeed \<lparr>access_token = access_token, refresh_token = refresh_token,
                       refresh_token_id = rt_id saved\<rparr>)))))))))
       (\<lambda>error.
          if error = RefreshTokenReusedException
             \<or> error = RefreshTokenRevokedException
             \<or> error = RefreshTokenExpiredException
          then throw error
          else throw (InternalServerErrorException ''Failed to refresh tokens''))"

definition logout :: "'s RefreshTokenRepository \<Rightarrow> string \<Rightarrow> ('s, LogoutResult) action" where
  "logout tokenRepo rawRefreshToken =
     tryCatch
       (await (call_query (\<lambda>s. findAll tokenRepo s 500)) (\<lambda>tokens.
        await (call_pure (findMatchedToken tokenRepo tokens rawRefreshToken)) (\<lambda>found.
        await (case found of
                 Some matched \<Rightarrow>
                   call_command (\<lambda>s. revoke tokenRepo s (rt_id matched))
                     (CallRevoke (rt_id matched))
               | None \<Rightarrow> succeed ()) (\<lambda>_.
        succeed \<lparr>ok = True\<rparr>))))
       (\<lambda>_. throw (InternalServerErrorException ''Failed to logout''))"

section \<open>The token store\<close>

text \<open>
  Modelled from the spec: the repository class
  (\<^verbatim>\<open>./repositories/refresh-token.repository\<close>) is not among the source files. The
  store is the list of its records, newest first; the operations below follow the
  specification's section 4.3, with the hashing and decoding utilities of the source.
\<close>

type_synonym TokenStore = "RefreshTokenRecord list"

text \<open>
  Modelled from the spec: \<^verbatim>\<open>findMatchedToken\<close> compares the raw token with each
  candidate's stored hash, in a linear scan where the first match wins. A record that a
  rotation has replaced is unmatched by its raw value from then on (the rotation
  invariant of the specification), so the scan passes over it.
\<close>

fun store_findMatchedToken ::
    "Bcrypt \<Rightarrow> RefreshTokenRecord list \<Rightarrow> string \<Rightarrow> exn + RefreshTokenRecord option" where
  "store_findMatchedToken bcrypt [] rawToken = Inr None"
| "store_findMatchedToken bcrypt (r # rs) rawToken =
     (if rt_replacedBy r \<noteq> None then store_findMatchedToken bcrypt rs rawToken
      else
        (case compareToken bcrypt rawToken (rt_tokenHash r) of
           Inl e \<Rightarrow> Inl e
         | Inr True \<Rightarrow> Inr (Some r)
         | Inr False \<Rightarrow> store_findMatchedToken bcrypt rs rawToken))"

text \<open>
  Modelled from the spec: \<^verbatim>\<open>revoke\<close> sets \<^verbatim>\<open>revokedAt = now\<close>; revoking an
  already-revoked record is a no-op.
\<close>

definition revoked_at :: "int \<Rightarrow> RefreshTokenRecord \<Rightarrow> RefreshTokenRecord" where
  "revoked_at now r = (if rt_revokedAt r = None then r\<lparr>rt_revokedAt := Some now\<rparr> else r)"

definition store_revoke :: "int \<Rightarrow> TokenStore \<Rightarrow> string \<Rightarrow> TokenStore" where
  "store_revoke now s recordId = map (\<lambda>r. if rt_id r = recordId then revoked_at now r else r) s"

text \<open>Modelled from the spec: \<^verbatim>\<open>revokeAllForUser\<close> revokes every record of the user
  that is not revoked yet.\<close>

definition store_revokeAllForUser :: "int \<Rightarrow> TokenStore \<Rightarrow> string \<Rightarrow> TokenStore" where
  "store_revokeAllForUser now s userId =
     map (\<lambda>r. if rt_userId r = userId then revoked_at now r else r) s"

text \<open>Modelled from the spec: \<^verbatim>\<open>markAsReplaced\<close> sets \<^verbatim>\<open>replacedByRecordId\<close> on the
  old record.\<close>

definition store_markAsReplaced :: "TokenStore \<Rightarrow> string \<Rightarrow> string \<Rightarrow> TokenStore" where
  "store_markAsReplaced s oldId newId =
     map (\<lambda>r. if rt_id r = oldId then r\<lparr>rt_replacedBy := Some newId\<rparr> else r) s"

text \<open>
  Modelled from the spec: \<^verbatim>\<open>save\<close> persists a new record for the raw token and
  returns it with its generated id. The stored value is the token's hash; the store
  expiry is the token's expiration as \<open>extractTokenExpiration\<close> reads it from the
  decoded token, in milliseconds. \<open>newId\<close> generates the id of the n-th record.
\<close>

definition store_save ::
    "JwtService \<Rightarrow> Bcrypt \<Rightarrow> (nat \<Rightarrow> string) \<Rightarrow> int \<Rightarrow> TokenStore \<Rightarrow> string \<Rightarrow> string
      \<Rightarrow> RequestMetadata option \<Rightarrow> exn + RefreshTokenRecord \<times> TokenStore" where
  "store_save jwt bcrypt newId now s userId rawToken meta =
     (case hashToken bcrypt rawToken of
        Inl e \<Rightarrow> Inl e
      | Inr h \<Rightarrow>
          (case decodeToken jwt rawToken of
             Inl e \<Rightarrow> Inl e
           | Inr decoded \<Rightarrow>
               (let r = \<lparr>rt_id = newId (length s), rt_userId = userId, rt_tokenHash = h,
                         rt_issuedAt = now,
                         rt_expiresAt = extractTokenExpiration now decoded * 1000,
                         rt_revokedAt = None, rt_replacedBy = None, rt_meta = meta\<rparr>
                in Inr (r, r # s))))"

text \<open>
  Modelled from the spec: the repository over the list store. \<^verbatim>\<open>verifySignature\<close>
  delegates to the token codec, \<^verbatim>\<open>create\<close> signs a new refresh token with the
  default lifetime, \<^verbatim>\<open>findByUserId\<close> returns the user's records of any status and
  \<^verbatim>\<open>findAll\<close> the first \<open>limit\<close> records.
\<close>

definition memRepo ::
    "JwtService \<Rightarrow> Bcrypt \<Rightarrow> string \<Rightarrow> (nat \<Rightarrow> string) \<Rightarrow> int
      \<Rightarrow> TokenStore RefreshTokenRepository" where
  "memRepo jwt bcrypt secret newId now =
     \<lparr>repo_verifyRefreshToken = (\<lambda>rawToken. verifyRefreshToken jwt rawToken secret),
      findByUserId = (\<lambda>s userId. Inr (filter (\<lambda>r. rt_userId r = userId) s)),
      findAll = (\<lambda>s limit. Inr (take limit s)),
      findMatchedToken = store_findMatchedToken bcrypt,
      createRefreshToken = (\<lambda>user. signRefreshToken jwt user secret None),
      save = store_save jwt bcrypt newId now,
      revoke = (\<lambda>s recordId. Inr (store_revoke now s recordId)),
      revokeAllForUser = (\<lambda>s userId. Inr (store_revokeAllForUser now s userId)),
      markAsReplaced = (\<lambda>s oldId newId. Inr (store_markAsReplaced s oldId newId))\<rparr>"

section \<open>Collaborators for the concrete runs\<close>

text \<open>
  A JWT service that signs a token as a tag and the subject, verifies under the secret
  \<open>k\<close> exactly two refresh tokens of user \<open>u1\<close> (an earlier one and the one it
  signs) and decodes every token to an expiration of 2000 seconds; a bcrypt whose hash is the text behind a mark; a user
  directory with one user.
\<close>

definition demoPayload :: TokenPayload where
  "demoPayload = \<lparr>pl_sub = ''u1'', pl_email = ''ann@example.org'',
                  pl_displayName = Some ''Ann'', pl_typ = Some ''refresh''\<rparr>"

definition demoJwt :: JwtService where
  "demoJwt =
     \<lparr>jwt_sign = (\<lambda>p opts. Inr ((case opts of None \<Rightarrow> ''access.'' | Some _ \<Rightarrow> ''next.'') @ pl_sub p)),
      jwt_verifyAsync = (\<lambda>token secret.
         if (token = ''refresh.u1'' \<or> token = ''next.u1'') \<and> secret = ''k''
         then Inr demoPayload
         else Inl (ForeignError ''JsonWebTokenError'')),
      jwt_decode = (\<lambda>token. Inr (JsObject [(''exp'', JsNumber 2000)]))\<rparr>"

definition demoBcrypt :: Bcrypt where
  "demoBcrypt =
     \<lparr>bcrypt_hash = (\<lambda>plain rounds. Inr (''#'' @ plain)),
      bcrypt_compare = (\<lambda>plain h. Inr (h = ''#'' @ plain))\<rparr>"

definition demoUser :: User where
  "demoUser = \<lparr>usr_id = ''u1'', usr_email = ''ann@example.org'',
               usr_displayName = Some ''Ann'', usr_passwordHash = ''#pw''\<rparr>"

definition demoUsers :: UsersService where
  "demoUsers = \<lparr>findByEmail = (\<lambda>email. Inr (if email = ''ann@example.org'' then Some demoUser else None))\<rparr>"

definition noUsers :: UsersService where
  "noUsers = \<lparr>findByEmail = (\<lambda>email. Inr None)\<rparr>"

text \<open>A user directory and a bcrypt that are unavailable: every call throws.\<close>

definition brokenUsers :: UsersService where
  "brokenUsers = \<lparr>findByEmail = (\<lambda>email. Inl (ForeignError ''ECONNREFUSED''))\<rparr>"

definition brokenBcrypt :: Bcrypt where
  "brokenBcrypt =
     \<lparr>bcrypt_hash = (\<lambda>plain rounds. Inl (ForeignError ''data and salt arguments required'')),
      bcrypt_compare = (\<lambda>plain h. Inl (ForeignError ''data and hash arguments required''))\<rparr>"

definition demoNewId :: "nat \<Rightarrow> string" where
  "demoNewId n = ''rt'' @ replicate n (CHR ''+'')"

definition demoRepo :: "int \<Rightarrow> TokenStore RefreshTokenRepository" where
  "demoRepo now = memRepo demoJwt demoBcrypt ''k'' demoNewId now"

text \<open>A record of user \<open>u1\<close> holding the hash of \<open>token\<close>.\<close>

definition demoRecord :: "string \<Rightarrow> string \<Rightarrow> int \<Rightarrow> int option \<Rightarrow> RefreshTokenRecord" where
  "demoRecord recordId token expires revoked =
     \<lparr>rt_id = recordId, rt_userId = ''u1'', rt_tokenHash = ''#'' @ token, rt_issuedAt = 0,
      rt_expiresAt = expires, rt_revokedAt = revoked, rt_replacedBy = None, rt_meta = None\<rparr>"

section \<open>Order of the mutator calls\<close>

text \<open>
  A log is well ordered when every \<open>CallMarkAsReplaced oldId newId\<close> in it comes
  after a \<open>CallSave\<close> that returned the record \<open>newId\<close>; \<open>saved\<close> holds the ids
  saved so far.
\<close>

fun marks_follow_saves :: "string list \<Rightarrow> call list \<Rightarrow> bool" where
  "marks_follow_saves saved [] = True"
| "marks_follow_saves saved (CallSave userId token newId # cs) =
     marks_follow_saves (newId # saved) cs"
| "marks_follow_saves saved (CallMarkAsReplaced oldId newId # cs) =
     (newId \<in> set saved \<and> marks_follow_saves saved cs)"
| "marks_follow_saves saved (c # cs) = marks_follow_saves saved cs"

section \<open>Unfolding\<close>

lemmas action_defs = tryCatch_def await_def call_pure_def call_query_def call_update_def
  call_command_def succeed_def throw_def

lemmas demo_defs = demoRepo_def memRepo_def demoJwt_def demoBcrypt_def demoUsers_def
  noUsers_def brokenUsers_def brokenBcrypt_def demoUser_def demoPayload_def demoNewId_def demoRecord_def
  verifyRefreshToken_def compareToken_def comparePassword_def hashToken_def decodeToken_def
  signRefreshToken_def signAccessToken_def store_save_def store_revoke_def
  store_revokeAllForUser_def store_markAsReplaced_def revoked_at_def
  extractTokenExpiration_def

section \<open>Refresh: reuse detection\<close>

text \<open>
  C1. Whenever the raw refresh token verifies to a payload, the lookup of the
  subject's records returns and none of them matches the raw token, \<open>refresh\<close> calls
  \<open>revokeAllForUser\<close> for the payload's subject and, once that call has completed,
  fails with \<open>RefreshTokenReusedException\<close>: the world it leaves is the store that
  \<open>revokeAllForUser\<close> returned, with that one call logged.
\<close>

theorem refresh_reuse_revokes_all:
  assumes "repo_verifyRefreshToken tokenRepo raw = Inr payload"
      and "findByUserId tokenRepo (store w) (pl_sub payload) = Inr tokens"
      and "findMatchedToken tokenRepo tokens raw = Inr None"
      and "revokeAllForUser tokenRepo (store w) (pl_sub payload) = Inr s'"
  shows "refresh users jwt tokenRepo now raw meta w =
           (Inl RefreshTokenReusedException,
            w\<lparr>store := s', calls := calls w @ [CallRevokeAllForUser (pl_sub payload)]\<rparr>)"
  using assms by (simp add: refresh_def action_defs)

theorem refresh_reuse_revokes_all_witness:
  "repo_verifyRefreshToken (demoRepo 5000) ''refresh.u1'' = Inr demoPayload
   \<and> findMatchedToken (demoRepo 5000)
        [demoRecord ''rt+'' ''next.u1'' 9000000 None, demoRecord ''rt'' ''older'' 9000000 (Some 40)]
        ''refresh.u1'' = Inr None
   \<and> refresh demoUsers demoJwt (demoRepo 5000) 5000 ''refresh.u1'' None
        \<lparr>store = [demoRecord ''rt+'' ''next.u1'' 9000000 None,
                  demoRecord ''rt'' ''older'' 9000000 (Some 40)],
         calls = []\<rparr>
     = (Inl RefreshTokenReusedException,
        \<lparr>store = [demoRecord ''rt+'' ''next.u1'' 9000000 (Some 5000),
                  demoRecord ''rt'' ''older'' 9000000 (Some 40)],
         calls = [CallRevokeAllForUser ''u1'']\<rparr>)"
  using refresh_reuse_revokes_all
          [where tokenRepo = "demoRepo 5000" and raw = "''refresh.u1''" and payload = demoPayload
             and w = "\<lparr>store = [demoRecord ''rt+'' ''next.u1'' 9000000 None,
                               demoRecord ''rt'' ''older'' 9000000 (Some 40)], calls = []\<rparr>"
             and tokens = "[demoRecord ''rt+'' ''next.u1'' 9000000 None,
                            demoRecord ''rt'' ''older'' 9000000 (Some 40)]"
             and s' = "[demoRecord ''rt+'' ''next.u1'' 9000000 (Some 5000),
                        demoRecord ''rt'' ''older'' 9000000 (Some 40)]"
             and users = demoUsers and jwt = demoJwt and now = 5000 and meta = None]
  by (simp add: demo_defs)

section \<open>Refresh: rotation order\<close>

lemma refresh_calls_shape:
  "\<exists>cs. calls (snd (refresh users jwt tokenRepo now raw meta w)) = calls w @ cs
     \<and> (cs = [] \<or> (\<exists>u. cs = [CallRevokeAllForUser u]) \<or> (\<exists>i. cs = [CallRevoke i])
        \<or> (\<exists>u t i. cs = [CallSave u t i])
        \<or> (\<exists>u t i old. cs = [CallSave u t i, CallMarkAsReplaced old i]))"
  by (auto simp: refresh_def action_defs Let_def
           split: sum.splits option.splits prod.splits if_splits)

lemma refresh_success_trace:
  assumes "refresh users jwt tokenRepo now raw meta w = (Inr result, w')"
  shows "\<exists>payload tokens matched saved s1.
           repo_verifyRefreshToken tokenRepo raw = Inr payload
         \<and> findByUserId tokenRepo (store w) (pl_sub payload) = Inr tokens
         \<and> findMatchedToken tokenRepo tokens raw = Inr (Some matched)
         \<and> save tokenRepo (store w) (pl_sub payload) (refresh_token result) meta = Inr (saved, s1)
         \<and> rt_id saved = refresh_token_id result
         \<and> markAsReplaced tokenRepo s1 (rt_id matched) (rt_id saved) = Inr (store w')
         \<and> calls w' = calls w @ [CallSave (pl_sub payload) (refresh_token result) (rt_id saved),
                                   CallMarkAsReplaced (rt_id matched) (rt_id saved)]"
  using assms
  by (auto simp: refresh_def action_defs Let_def
           split: sum.splits option.splits prod.splits if_splits)

text \<open>
  C2. The calls one run of \<open>refresh\<close> adds to the log are always well ordered: no
  record is marked as replaced by an id that \<open>save\<close> has not returned before. When
  \<open>refresh\<close> succeeds, it added exactly two calls, the \<open>save\<close> of the new token
  first and then \<open>markAsReplaced\<close> of the matched record by the saved record's id; the
  mark ran on the store that \<open>save\<close> returned, and the id handed back is the saved
  record's.
\<close>

theorem refresh_persists_before_marking:
  "marks_follow_saves []
     (drop (length (calls w)) (calls (snd (refresh users jwt tokenRepo now raw meta w))))
   \<and> (\<forall>result w'. refresh users jwt tokenRepo now raw meta w = (Inr result, w') \<longrightarrow>
         (\<exists>payload tokens matched saved s1.
             repo_verifyRefreshToken tokenRepo raw = Inr payload
           \<and> findByUserId tokenRepo (store w) (pl_sub payload) = Inr tokens
           \<and> findMatchedToken tokenRepo tokens raw = Inr (Some matched)
           \<and> save tokenRepo (store w) (pl_sub payload) (refresh_token result) meta
               = Inr (saved, s1)
           \<and> rt_id saved = refresh_token_id result
           \<and> markAsReplaced tokenRepo s1 (rt_id matched) (rt_id saved) = Inr (store w')
           \<and> calls w' = calls w @ [CallSave (pl_sub payload) (refresh_token result) (rt_id saved),
                                     CallMarkAsReplaced (rt_id matched) (rt_id saved)]))"
proof (intro conjI allI impI)
  obtain cs where cs: "calls (snd (refresh users jwt tokenRepo now raw meta w)) = calls w @ cs"
    and shape: "cs = [] \<or> (\<exists>u. cs = [CallRevokeAllForUser u]) \<or> (\<exists>i. cs = [CallRevoke i])
        \<or> (\<exists>u t i. cs = [CallSave u t i])
        \<or> (\<exists>u t i old. cs = [CallSave u t i, CallMarkAsReplaced old i])"
    using refresh_calls_shape by blast
  from shape have "marks_follow_saves [] cs" by auto
  then show "marks_follow_saves []
     (drop (length (calls w)) (calls (snd (refresh users jwt tokenRepo now raw meta w))))"
    by (simp add: cs)
next
  fix result w'
  assume "refresh users jwt tokenRepo now raw meta w = (Inr result, w')"
  then show "\<exists>payload tokens matched saved s1.
             repo_verifyRefreshToken tokenRepo raw = Inr payload
           \<and> findByUserId tokenRepo (store w) (pl_sub payload) = Inr tokens
           \<and> findMatchedToken tokenRepo tokens raw = Inr (Some matched)
           \<and> save tokenRepo (store w) (pl_sub payload) (refresh_token result) meta
               = Inr (saved, s1)
           \<and> rt_id saved = refresh_token_id result
           \<and> markAsReplaced tokenRepo s1 (rt_id matched) (rt_id saved) = Inr (store w')
           \<and> calls w' = calls w @ [CallSave (pl_sub payload) (refresh_token result) (rt_id saved),
                                     CallMarkAsReplaced (rt_id matched) (rt_id saved)]"
    by (rule refresh_success_trace)
qed

theorem refresh_persists_before_marking_witness:
  "refresh demoUsers demoJwt (demoRepo 5000) 5000 ''refresh.u1'' None
        \<lparr>store = [demoRecord ''rt'' ''refresh.u1'' 9000000 None], calls = []\<rparr>
     = (Inr \<lparr>access_token = ''access.u1'', refresh_token = ''next.u1'',
             refresh_token_id = ''rt+''\<rparr>,
        \<lparr>store = [(demoRecord ''rt+'' ''next.u1'' 2000000 None)\<lparr>rt_issuedAt := 5000\<rparr>,
                  (demoRecord ''rt'' ''refresh.u1'' 9000000 None)\<lparr>rt_replacedBy := Some ''rt+''\<rparr>],
         calls = [CallSave ''u1'' ''next.u1'' ''rt+'', CallMarkAsReplaced ''rt'' ''rt+'']\<rparr>)
   \<and> marks_follow_saves [] [CallSave ''u1'' ''next.u1'' ''rt+'', CallMarkAsReplaced ''rt'' ''rt+'']
   \<and> \<not> marks_follow_saves [] [CallMarkAsReplaced ''rt'' ''rt+'', CallSave ''u1'' ''next.u1'' ''rt+'']
   \<and> (\<exists>saved s1.
         save (demoRepo 5000) [demoRecord ''rt'' ''refresh.u1'' 9000000 None] ''u1'' ''next.u1'' None
           = Inr (saved, s1)
       \<and> rt_id saved = ''rt+''
       \<and> markAsReplaced (demoRepo 5000) s1 ''rt'' ''rt+''
           = Inr [(demoRecord ''rt+'' ''next.u1'' 2000000 None)\<lparr>rt_issuedAt := 5000\<rparr>,
                  (demoRecord ''rt'' ''refresh.u1'' 9000000 None)\<lparr>rt_replacedBy := Some ''rt+''\<rparr>])"
  using refresh_persists_before_marking
          [where tokenRepo = "demoRepo 5000" and raw = "''refresh.u1''"
             and w = "\<lparr>store = [demoRecord ''rt'' ''refresh.u1'' 9000000 None], calls = []\<rparr>"
             and users = demoUsers and jwt = demoJwt and now = 5000 and meta = None]
  by (simp add: demo_defs refresh_def action_defs Let_def)

section \<open>Refresh: the catch block\<close>

lemma refresh_error_kinds:
  assumes "refresh users jwt tokenRepo now raw meta w = (Inl e, w')"
  shows "e = RefreshTokenReusedException \<or> e = RefreshTokenRevokedException
       \<or> e = RefreshTokenExpiredException
       \<or> e = InternalServerErrorException ''Failed to refresh tokens''"
  using assms
  by (auto simp: refresh_def tryCatch_def throw_def split: sum.splits prod.splits if_splits)

text \<open>
  C3, at the failing input. A raw token that the JWT library rejects makes
  \<open>verifyRefreshToken\<close> throw its \<open>UnauthorizedException\<close>; with a repository that
  delegates verification to it, \<open>refresh\<close> does not let that exception through: the
  catch block rethrows only the three refresh-token exceptions, and the caller gets
  \<open>InternalServerErrorException ''Failed to refresh tokens''\<close>.
\<close>

theorem refresh_invalid_token_normalised:
  assumes "repo_verifyRefreshToken tokenRepo raw = verifyRefreshToken jwt raw secret"
      and "jwt_verifyAsync jwt raw secret = Inl e"
  shows "verifyRefreshToken jwt raw secret
           = Inl (UnauthorizedException ''Invalid or expired refresh token'')
       \<and> refresh users jwt tokenRepo now raw meta w =
           (Inl (InternalServerErrorException ''Failed to refresh tokens''), w)"
  using assms by (simp add: refresh_def action_defs verifyRefreshToken_def)

theorem refresh_invalid_token_normalised_witness:
  "jwt_verifyAsync demoJwt ''garbage'' ''k'' = Inl (ForeignError ''JsonWebTokenError'')
   \<and> refresh demoUsers demoJwt (demoRepo 5000) 5000 ''garbage'' None
        \<lparr>store = [demoRecord ''rt'' ''refresh.u1'' 9000000 None], calls = []\<rparr>
     = (Inl (InternalServerErrorException ''Failed to refresh tokens''),
        \<lparr>store = [demoRecord ''rt'' ''refresh.u1'' 9000000 None], calls = []\<rparr>)"
  using refresh_invalid_token_normalised
          [where tokenRepo = "demoRepo 5000" and raw = "''garbage''" and jwt = demoJwt
             and secret = "''k''" and e = "ForeignError ''JsonWebTokenError''"
             and users = demoUsers and now = 5000 and meta = None
             and w = "\<lparr>store = [demoRecord ''rt'' ''refresh.u1'' 9000000 None], calls = []\<rparr>"]
  by (simp add: demo_defs)

section \<open>Refresh: expired and revoked records\<close>

text \<open>
  C4, as amended. Whenever the matched record is not revoked and its \<open>expiresAt\<close> is
  less than or equal to the current time (equal included), \<open>refresh\<close> calls
  \<open>revoke\<close> on that record's id and nothing else and, once the call has completed,
  fails with \<open>RefreshTokenExpiredException\<close>.
\<close>

theorem refresh_expired_revokes_one:
  assumes "repo_verifyRefreshToken tokenRepo raw = Inr payload"
      and "findByUserId tokenRepo (store w) (pl_sub payload) = Inr tokens"
      and "findMatchedToken tokenRepo tokens raw = Inr (Some matched)"
      and "rt_revokedAt matched = None"
      and "rt_expiresAt matched \<le> now"
      and "revoke tokenRepo (store w) (rt_id matched) = Inr s'"
  shows "refresh users jwt tokenRepo now raw meta w =
           (Inl RefreshTokenExpiredException,
            w\<lparr>store := s', calls := calls w @ [CallRevoke (rt_id matched)]\<rparr>)"
  using assms by (simp add: refresh_def action_defs)

theorem refresh_expired_revokes_one_witness:
  "rt_expiresAt (demoRecord ''rt'' ''refresh.u1'' 5000 None) \<le> 5000
   \<and> refresh demoUsers demoJwt (demoRepo 5000) 5000 ''refresh.u1'' None
        \<lparr>store = [demoRecord ''rt+'' ''next.u1'' 9000000 None,
                  demoRecord ''rt'' ''refresh.u1'' 5000 None],
         calls = []\<rparr>
     = (Inl RefreshTokenExpiredException,
        \<lparr>store = [demoRecord ''rt+'' ''next.u1'' 9000000 None,
                  demoRecord ''rt'' ''refresh.u1'' 5000 (Some 5000)],
         calls = [CallRevoke ''rt'']\<rparr>)"
  using refresh_expired_revokes_one
          [where tokenRepo = "demoRepo 5000" and raw = "''refresh.u1''" and payload = demoPayload
             and w = "\<lparr>store = [demoRecord ''rt+'' ''next.u1'' 9000000 None,
                               demoRecord ''rt'' ''refresh.u1'' 5000 None], calls = []\<rparr>"
             and tokens = "[demoRecord ''rt+'' ''next.u1'' 9000000 None,
                            demoRecord ''rt'' ''refresh.u1'' 5000 None]"
             and matched = "demoRecord ''rt'' ''refresh.u1'' 5000 None"
             and s' = "[demoRecord ''rt+'' ''next.u1'' 9000000 None,
                        demoRecord ''rt'' ''refresh.u1'' 5000 (Some 5000)]"
             and users = demoUsers and jwt = demoJwt and now = 5000 and meta = None]
  by (simp add: demo_defs)

text \<open>
  C4 as stated fails on a matched record that is expired and also revoked: the revoked
  check comes first, so \<open>refresh\<close> fails with \<open>RefreshTokenRevokedException\<close> and
  revokes nothing.
\<close>

theorem refresh_expired_counterexample:
  "rt_expiresAt (demoRecord ''rt'' ''refresh.u1'' 100 (Some 40)) \<le> 5000
   \<and> findMatchedToken (demoRepo 5000) [demoRecord ''rt'' ''refresh.u1'' 100 (Some 40)]
        ''refresh.u1'' = Inr (Some (demoRecord ''rt'' ''refresh.u1'' 100 (Some 40)))
   \<and> refresh demoUsers demoJwt (demoRepo 5000) 5000 ''refresh.u1'' None
        \<lparr>store = [demoRecord ''rt'' ''refresh.u1'' 100 (Some 40)], calls = []\<rparr>
     = (Inl RefreshTokenRevokedException,
        \<lparr>store = [demoRecord ''rt'' ''refresh.u1'' 100 (Some 40)], calls = []\<rparr>)
   \<and> fst (refresh demoUsers demoJwt (demoRepo 5000) 5000 ''refresh.u1'' None
        \<lparr>store = [demoRecord ''rt'' ''refresh.u1'' 100 (Some 40)], calls = []\<rparr>)
     \<noteq> Inl RefreshTokenExpiredException"
  by (simp add: demo_defs refresh_def action_defs)

text \<open>
  C5. Whenever the matched record has \<open>revokedAt\<close> set, \<open>refresh\<close> fails with
  \<open>RefreshTokenRevokedException\<close> and leaves the world as it found it: the store is
  unchanged and no mutator was called.
\<close>

theorem refresh_revoked_touches_nothing:
  assumes "repo_verifyRefreshToken tokenRepo raw = Inr payload"
      and "findByUserId tokenRepo (store w) (pl_sub payload) = Inr tokens"
      and "findMatchedToken tokenRepo tokens raw = Inr (Some matched)"
      and "rt_revokedAt matched \<noteq> None"
  shows "refresh users jwt tokenRepo now raw meta w = (Inl RefreshTokenRevokedException, w)"
  using assms by (simp add: refresh_def action_defs)

theorem refresh_revoked_touches_nothing_witness:
  "rt_revokedAt (demoRecord ''rt'' ''refresh.u1'' 9000000 (Some 40)) \<noteq> None
   \<and> refresh demoUsers demoJwt (demoRepo 5000) 5000 ''refresh.u1'' None
        \<lparr>store = [demoRecord ''rt+'' ''next.u1'' 9000000 None,
                  demoRecord ''rt'' ''refresh.u1'' 9000000 (Some 40)],
         calls = []\<rparr>
     = (Inl RefreshTokenRevokedException,
        \<lparr>store = [demoRecord ''rt+'' ''next.u1'' 9000000 None,
                  demoRecord ''rt'' ''refresh.u1'' 9000000 (Some 40)],
         calls = []\<rparr>)"
  using refresh_revoked_touches_nothing
          [where tokenRepo = "demoRepo 5000" and raw = "''refresh.u1''" and payload = demoPayload
             and w = "\<lparr>store = [demoRecord ''rt+'' ''next.u1'' 9000000 None,
                               demoRecord ''rt'' ''refresh.u1'' 9000000 (Some 40)], calls = []\<rparr>"
             and tokens = "[demoRecord ''rt+'' ''next.u1'' 9000000 None,
                            demoRecord ''rt'' ''refresh.u1'' 9000000 (Some 40)]"
             and matched = "demoRecord ''rt'' ''refresh.u1'' 9000000 (Some 40)"
             and users = demoUsers and jwt = demoJwt and now = 5000 and meta = None]
  by (simp add: demo_defs)

section \<open>Credentials\<close>

text \<open>
  C6. \<open>validateUser\<close> returns the user's id, email and display name when the user is
  found and bcrypt accepts the password; it returns null, the same value, when bcrypt
  rejects the password and when no user has the email; and it throws
  \<open>InternalServerErrorException ''Failed to validate user''\<close> when the lookup or the
  comparison throws.
\<close>

theorem validateUser_outcomes:
  "(findByEmail users email = Inr (Some user)
      \<and> bcrypt_compare bcrypt password (usr_passwordHash user) = Inr True
     \<longrightarrow> validateUser users bcrypt email password
          = Inr (Some \<lparr>ui_id = usr_id user, ui_email = usr_email user,
                       ui_displayName = usr_displayName user\<rparr>))
   \<and> (findByEmail users email = Inr (Some user)
      \<and> bcrypt_compare bcrypt password (usr_passwordHash user) = Inr False
     \<longrightarrow> validateUser users bcrypt email password = Inr None)
   \<and> (findByEmail users email = Inr None
     \<longrightarrow> validateUser users bcrypt email password = Inr None)
   \<and> (findByEmail users email = Inl e
     \<longrightarrow> validateUser users bcrypt email password
          = Inl (InternalServerErrorException ''Failed to validate user''))
   \<and> (findByEmail users email = Inr (Some user)
      \<and> bcrypt_compare bcrypt password (usr_passwordHash user) = Inl e
     \<longrightarrow> validateUser users bcrypt email password
          = Inl (InternalServerErrorException ''Failed to validate user''))"
  by (simp add: validateUser_def comparePassword_def)

theorem validateUser_outcomes_witness:
  "validateUser demoUsers demoBcrypt ''ann@example.org'' ''pw''
     = Inr (Some \<lparr>ui_id = ''u1'', ui_email = ''ann@example.org'', ui_displayName = Some ''Ann''\<rparr>)
   \<and> validateUser demoUsers demoBcrypt ''ann@example.org'' ''guess'' = Inr None
   \<and> validateUser demoUsers demoBcrypt ''bob@example.org'' ''pw'' = Inr None
   \<and> validateUser brokenUsers demoBcrypt ''ann@example.org'' ''pw''
     = Inl (InternalServerErrorException ''Failed to validate user'')
   \<and> validateUser demoUsers brokenBcrypt ''ann@example.org'' ''pw''
     = Inl (InternalServerErrorException ''Failed to validate user'')"
  using validateUser_outcomes
          [where users = demoUsers and bcrypt = demoBcrypt and email = "''ann@example.org''"
             and password = "''pw''" and user = demoUser]
        validateUser_outcomes
          [where users = demoUsers and bcrypt = demoBcrypt and email = "''ann@example.org''"
             and password = "''guess''" and user = demoUser]
        validateUser_outcomes
          [where users = demoUsers and bcrypt = demoBcrypt and email = "''bob@example.org''"
             and password = "''pw''"]
        validateUser_outcomes
          [where users = brokenUsers and bcrypt = demoBcrypt and email = "''ann@example.org''"
             and password = "''pw''" and e = "ForeignError ''ECONNREFUSED''"]
        validateUser_outcomes
          [where users = demoUsers and bcrypt = brokenBcrypt and email = "''ann@example.org''"
             and password = "''pw''" and user = demoUser
             and e = "ForeignError ''data and hash arguments required''"]
  by (simp add: demo_defs)

section \<open>Logout\<close>

lemma store_findMatchedToken_map:
  assumes "\<And>r. rt_tokenHash (f r) = rt_tokenHash r"
      and "\<And>r. rt_replacedBy (f r) = rt_replacedBy r"
  shows "store_findMatchedToken bcrypt (map f rs) raw
           = map_sum id (map_option f) (store_findMatchedToken bcrypt rs raw)"
  using assms
  by (induction rs) (auto split: sum.splits bool.splits)

lemma store_findMatchedToken_mem:
  "store_findMatchedToken bcrypt rs raw = Inr (Some r) \<Longrightarrow> r \<in> set rs"
  by (induction rs) (auto split: sum.splits bool.splits if_splits)

lemma store_revoke_twice:
  "store_revoke now' (store_revoke now s i) i = store_revoke now s i"
  by (induction s) (auto simp: store_revoke_def revoked_at_def)

lemma store_revoke_scan:
  "store_findMatchedToken bcrypt (take n (store_revoke now s i)) raw
     = map_sum id (map_option (\<lambda>r. if rt_id r = i then revoked_at now r else r))
         (store_findMatchedToken bcrypt (take n s) raw)"
  unfolding store_revoke_def take_map
  by (rule store_findMatchedToken_map) (simp_all add: revoked_at_def)

lemma logout_memRepo:
  assumes "store_findMatchedToken bcrypt (take 500 (store w)) raw = Inr found"
  shows "logout (memRepo jwt bcrypt secret newId now) raw w =
           (Inr \<lparr>ok = True\<rparr>,
            case found of
              None \<Rightarrow> w
            | Some matched \<Rightarrow>
                w\<lparr>store := store_revoke now (store w) (rt_id matched),
                  calls := calls w @ [CallRevoke (rt_id matched)]\<rparr>)"
  using assms by (cases found) (simp_all add: logout_def action_defs memRepo_def)

text \<open>
  C7. Over the list store, whenever the scan of the first 500 records for the raw
  token completes, \<open>logout\<close> returns \<^verbatim>\<open>{ok: true}\<close>, whether a record matched or not.
  With no match the world is unchanged. With a match the store is the old one with
  that record's id revoked, which is the only call made, and the matched record is in
  the store with \<open>revokedAt\<close> set. A second \<open>logout\<close> with the same token, at any
  later time, returns \<^verbatim>\<open>{ok: true}\<close> again and leaves the store as the first one left it.
\<close>

theorem logout_always_ok:
  assumes scan: "store_findMatchedToken bcrypt (take 500 (store w)) raw = Inr found"
      and first: "logout (memRepo jwt bcrypt secret newId now) raw w = (res, w1)"
      and again: "logout (memRepo jwt bcrypt secret newId now') raw w1 = (res', w2)"
  shows "res = Inr \<lparr>ok = True\<rparr>
       \<and> (found = None \<longrightarrow> w1 = w)
       \<and> (\<forall>matched. found = Some matched \<longrightarrow>
             store w1 = store_revoke now (store w) (rt_id matched)
           \<and> calls w1 = calls w @ [CallRevoke (rt_id matched)]
           \<and> revoked_at now matched \<in> set (store w1)
           \<and> rt_revokedAt (revoked_at now matched) \<noteq> None)
       \<and> res' = Inr \<lparr>ok = True\<rparr>
       \<and> store w2 = store w1"
proof (cases found)
  case None
  with logout_memRepo [OF scan, of jwt secret newId now] first
  have w1: "res = Inr \<lparr>ok = True\<rparr>" "w1 = w" by simp_all
  with logout_memRepo [OF scan, of jwt secret newId now'] again None
  have "res' = Inr \<lparr>ok = True\<rparr>" "w2 = w" by simp_all
  with w1 None show ?thesis by simp
next
  case (Some matched)
  with logout_memRepo [OF scan, of jwt secret newId now] first
  have res: "res = Inr \<lparr>ok = True\<rparr>"
    and w1: "w1 = w\<lparr>store := store_revoke now (store w) (rt_id matched),
                    calls := calls w @ [CallRevoke (rt_id matched)]\<rparr>"
    by simp_all
  from scan Some have "matched \<in> set (take 500 (store w))"
    by (simp add: store_findMatchedToken_mem)
  then have mem: "matched \<in> set (store w)" by (rule in_set_takeD)
  have here: "revoked_at now matched \<in> set (store w1)"
    using mem by (auto simp: w1 store_revoke_def intro!: image_eqI [where x = matched])
  have set: "rt_revokedAt (revoked_at now matched) \<noteq> None"
    by (simp add: revoked_at_def)
  have scan1: "store_findMatchedToken bcrypt (take 500 (store w1)) raw
                 = Inr (Some (revoked_at now matched))"
    using scan Some by (simp add: w1 store_revoke_scan)
  have same_id: "rt_id (revoked_at now matched) = rt_id matched"
    by (simp add: revoked_at_def)
  from logout_memRepo [OF scan1, of jwt secret newId now'] again
  have "res' = Inr \<lparr>ok = True\<rparr>"
    and "store w2 = store_revoke now' (store w1) (rt_id matched)"
    by (simp_all add: same_id)
  then have "res' = Inr \<lparr>ok = True\<rparr>" and "store w2 = store w1"
    by (simp_all add: w1 store_revoke_twice)
  with res w1 here set Some show ?thesis by simp
qed

theorem logout_always_ok_witness:
  "logout (demoRepo 5000) ''refresh.u1''
        \<lparr>store = [demoRecord ''rt+'' ''next.u1'' 9000000 None,
                  demoRecord ''rt'' ''refresh.u1'' 9000000 None], calls = []\<rparr>
     = (Inr \<lparr>ok = True\<rparr>,
        \<lparr>store = [demoRecord ''rt+'' ''next.u1'' 9000000 None,
                  demoRecord ''rt'' ''refresh.u1'' 9000000 (Some 5000)],
         calls = [CallRevoke ''rt'']\<rparr>)
   \<and> logout (demoRepo 6000) ''refresh.u1''
        \<lparr>store = [demoRecord ''rt+'' ''next.u1'' 9000000 None,
                  demoRecord ''rt'' ''refresh.u1'' 9000000 (Some 5000)],
         calls = [CallRevoke ''rt'']\<rparr>
     = (Inr \<lparr>ok = True\<rparr>,
        \<lparr>store = [demoRecord ''rt+'' ''next.u1'' 9000000 None,
                  demoRecord ''rt'' ''refresh.u1'' 9000000 (Some 5000)],
         calls = [CallRevoke ''rt'', CallRevoke ''rt'']\<rparr>)
   \<and> logout (demoRepo 5000) ''garbage''
        \<lparr>store = [demoRecord ''rt+'' ''next.u1'' 9000000 None,
                  demoRecord ''rt'' ''refresh.u1'' 9000000 None], calls = []\<rparr>
     = (Inr \<lparr>ok = True\<rparr>,
        \<lparr>store = [demoRecord ''rt+'' ''next.u1'' 9000000 None,
                  demoRecord ''rt'' ''refresh.u1'' 9000000 None], calls = []\<rparr>)"
  using logout_always_ok
          [where bcrypt = demoBcrypt and jwt = demoJwt and secret = "''k''" and newId = demoNewId
             and now = 5000 and now' = 6000 and raw = "''refresh.u1''"
             and w = "\<lparr>store = [demoRecord ''rt+'' ''next.u1'' 9000000 None,
                               demoRecord ''rt'' ''refresh.u1'' 9000000 None], calls = []\<rparr>"
             and found = "Some (demoRecord ''rt'' ''refresh.u1'' 9000000 None)"
             and res = "Inr \<lparr>ok = True\<rparr>"
             and ?w1.0 = "\<lparr>store = [demoRecord ''rt+'' ''next.u1'' 9000000 None,
                  demoRecord ''rt'' ''refresh.u1'' 9000000 (Some 5000)],
                  calls = [CallRevoke ''rt'']\<rparr>"
             and res' = "Inr \<lparr>ok = True\<rparr>"
             and ?w2.0 = "\<lparr>store = [demoRecord ''rt+'' ''next.u1'' 9000000 None,
                  demoRecord ''rt'' ''refresh.u1'' 9000000 (Some 5000)],
                  calls = [CallRevoke ''rt'', CallRevoke ''rt'']\<rparr>"]
        logout_always_ok
          [where bcrypt = demoBcrypt and jwt = demoJwt and secret = "''k''" and newId = demoNewId
             and now = 5000 and now' = 6000 and raw = "''garbage''"
             and w = "\<lparr>store = [demoRecord ''rt+'' ''next.u1'' 9000000 None,
                               demoRecord ''rt'' ''refresh.u1'' 9000000 None], calls = []\<rparr>"
             and found = None
             and res = "Inr \<lparr>ok = True\<rparr>"
             and ?w1.0 = "\<lparr>store = [demoRecord ''rt+'' ''next.u1'' 9000000 None,
                               demoRecord ''rt'' ''refresh.u1'' 9000000 None], calls = []\<rparr>"
             and res' = "Inr \<lparr>ok = True\<rparr>"
             and ?w2.0 = "\<lparr>store = [demoRecord ''rt+'' ''next.u1'' 9000000 None,
                               demoRecord ''rt'' ''refresh.u1'' 9000000 None], calls = []\<rparr>"]
  by (simp add: demo_defs logout_def action_defs)

section \<open>Token Codec: verification\<close>

text \<open>
  C8. For every JWT service, token and secret, \<open>verifyRefreshToken\<close> either returns
  the claims the library verified or fails with the one error
  \<open>UnauthorizedException ''Invalid or expired refresh token''\<close>: whatever the library
  threw (invalid signature, malformed, expired), the caller sees the same error.
\<close>

theorem verifyRefreshToken_single_error:
  "(\<exists>payload. jwt_verifyAsync jwtService token secret = Inr payload
       \<and> verifyRefreshToken jwtService token secret = Inr payload)
   \<or> ((\<exists>e. jwt_verifyAsync jwtService token secret = Inl e)
       \<and> verifyRefreshToken jwtService token secret
           = Inl (UnauthorizedException ''Invalid or expired refresh token''))"
  by (cases "jwt_verifyAsync jwtService token secret") (simp_all add: verifyRefreshToken_def)

section \<open>Store expiry\<close>

lemma extractTokenExpiration_numeric:
  "optional_get decoded ''exp'' = JsNumber n \<Longrightarrow> n \<noteq> 0
     \<Longrightarrow> extractTokenExpiration now decoded = n"
  by (simp add: extractTokenExpiration_def)

lemma extractTokenExpiration_default:
  "typeof (optional_get decoded ''exp'') \<noteq> ''number''
     \<Longrightarrow> extractTokenExpiration now decoded = now div 1000 + 604800"
  by (simp add: extractTokenExpiration_def)



text \<open>
  The number 0 is falsy, so a decoded token whose \<^verbatim>\<open>exp\<close> is 0 gets the default as
  well; the result is still not below 0. No token the core signs has this expiration.
\<close>

lemma extractTokenExpiration_zero_exp:
  "typeof (optional_get (JsObject [(''exp'', JsNumber 0)]) ''exp'') = ''number''
   \<and> number_of (optional_get (JsObject [(''exp'', JsNumber 0)]) ''exp'') = 0
   \<and> extractTokenExpiration 1000000 (JsObject [(''exp'', JsNumber 0)]) = 1000 + 604800"
  by (simp add: extractTokenExpiration_def)

text \<open>The record \<open>store_save\<close> creates takes that expiry, in milliseconds.\<close>

lemma store_save_expiry:
  assumes "store_save jwt bcrypt newId now s userId rawToken meta = Inr (r, s')"
      and "decodeToken jwt rawToken = Inr decoded"
  shows "rt_expiresAt r = extractTokenExpiration now decoded * 1000 \<and> s' = r # s"
  using assms by (auto simp: store_save_def Let_def split: sum.splits)

section \<open>Refresh: a subject missing from the directory\<close>

text \<open>
  C10. Whenever the matched record is active and not expired and \<open>findByEmail\<close>
  returns null for the payload's email, \<open>refresh\<close> still rotates: the access token is
  the one the JWT service signs for the payload's subject and email with no display
  name, the refresh token is the one the repository creates for that same user with no
  display name, and both are returned with the saved record's id.
\<close>

theorem refresh_without_directory_entry:
  assumes "repo_verifyRefreshToken tokenRepo raw = Inr payload"
      and "findByUserId tokenRepo (store w) (pl_sub payload) = Inr tokens"
      and "findMatchedToken tokenRepo tokens raw = Inr (Some matched)"
      and "rt_revokedAt matched = None"
      and "now < rt_expiresAt matched"
      and "findByEmail users (pl_email payload) = Inr None"
      and "jwt_sign jwt \<lparr>pl_sub = pl_sub payload, pl_email = pl_email payload,
                         pl_displayName = None, pl_typ = None\<rparr> None = Inr access"
      and "createRefreshToken tokenRepo
             \<lparr>ui_id = pl_sub payload, ui_email = pl_email payload, ui_displayName = None\<rparr>
           = Inr fresh"
      and "save tokenRepo (store w) (pl_sub payload) fresh meta = Inr (saved, s1)"
      and "markAsReplaced tokenRepo s1 (rt_id matched) (rt_id saved) = Inr s2"
  shows "refresh users jwt tokenRepo now raw meta w =
           (Inr \<lparr>access_token = access, refresh_token = fresh, refresh_token_id = rt_id saved\<rparr>,
            w\<lparr>store := s2,
              calls := calls w @ [CallSave (pl_sub payload) fresh (rt_id saved),
                                  CallMarkAsReplaced (rt_id matched) (rt_id saved)]\<rparr>)"
  using assms by (simp add: refresh_def action_defs signAccessToken_def)

theorem refresh_without_directory_entry_witness:
  "findByEmail noUsers (pl_email demoPayload) = Inr None
   \<and> refresh noUsers demoJwt (demoRepo 5000) 5000 ''refresh.u1'' None
        \<lparr>store = [demoRecord ''rt'' ''refresh.u1'' 9000000 None], calls = []\<rparr>
     = (Inr \<lparr>access_token = ''access.u1'', refresh_token = ''next.u1'',
             refresh_token_id = ''rt+''\<rparr>,
        \<lparr>store = [(demoRecord ''rt+'' ''next.u1'' 2000000 None)\<lparr>rt_issuedAt := 5000\<rparr>,
                  (demoRecord ''rt'' ''refresh.u1'' 9000000 None)\<lparr>rt_replacedBy := Some ''rt+''\<rparr>],
         calls = [CallSave ''u1'' ''next.u1'' ''rt+'', CallMarkAsReplaced ''rt'' ''rt+'']\<rparr>)"
  using refresh_without_directory_entry
          [where tokenRepo = "demoRepo 5000" and raw = "''refresh.u1''" and payload = demoPayload
             and w = "\<lparr>store = [demoRecord ''rt'' ''refresh.u1'' 9000000 None], calls = []\<rparr>"
             and tokens = "[demoRecord ''rt'' ''refresh.u1'' 9000000 None]"
             and matched = "demoRecord ''rt'' ''refresh.u1'' 9000000 None"
             and users = noUsers and jwt = demoJwt and now = 5000 and meta = None
             and access = "''access.u1''" and fresh = "''next.u1''"
             and saved = "(demoRecord ''rt+'' ''next.u1'' 2000000 None)\<lparr>rt_issuedAt := 5000\<rparr>"
             and ?s1.0 = "[(demoRecord ''rt+'' ''next.u1'' 2000000 None)\<lparr>rt_issuedAt := 5000\<rparr>,
                        demoRecord ''rt'' ''refresh.u1'' 9000000 None]"
             and ?s2.0 = "[(demoRecord ''rt+'' ''next.u1'' 2000000 None)\<lparr>rt_issuedAt := 5000\<rparr>,
                  (demoRecord ''rt'' ''refresh.u1'' 9000000 None)\<lparr>rt_replacedBy := Some ''rt+''\<rparr>]"]
  by (simp add: demo_defs Let_def)

end
